theory Spec2Isabelle
  imports Complex_Main
begin

section \<open>Template matching with sub-pixel precision (template\_matching.py)\<close>

text \<open>
  The module tracks a template through a sequence of frames. For each frame it cuts a
  region of interest around the last position, correlates the template with it
  (OpenCV), pulls a small window around the correlation maximum, interpolates the
  window and minimises the negated interpolant (SciPy), and maps the result back to
  frame coordinates.

  Conventions of the embedding:
  \<^item> Python integers are \<open>int\<close>; Python and NumPy floats are \<open>rat\<close>, with exact
    arithmetic (every finite double is a rational; the rounding error of a float
    operation, infinities and NaN are outside the model);
  \<^item> a two-dimensional NumPy array is a record of its column count and its rows, so
    that an array with no row still has a width, as \<open>shape\<close> reports it;
  \<^item> a raised exception is \<open>Inl e\<close>, a returned value \<open>Inr v\<close>;
  \<^item> the OpenCV and SciPy routines are not part of the module: they are the fields of
    a record \<open>prims\<close> that every operation takes as its first argument.
\<close>

subsection \<open>Errors, indexing and slicing\<close>

datatype error = IndexError | CvError | ScipyError

text \<open>
  \<open>xs[i]\<close> for an integer \<open>i\<close>: an index below zero counts from the end, an index
  outside \<open>-len \<dots> len - 1\<close> raises IndexError.
\<close>

definition py_index :: "'a list \<Rightarrow> int \<Rightarrow> error + 'a" where
  "py_index xs i =
     (if i < - int (length xs) \<or> int (length xs) \<le> i then Inl IndexError
      else if i < 0 then Inr (xs ! nat (i + int (length xs)))
      else Inr (xs ! nat i))"

text \<open>
  A bound of the slice \<open>xs[a:b]\<close> (step 1) over \<open>n\<close> elements: a negative bound has
  \<open>n\<close> added and is then raised to 0, a bound above \<open>n\<close> is lowered to \<open>n\<close>. A slice
  never raises; it is empty when the start is not below the stop.
\<close>

definition slice_bound :: "int \<Rightarrow> nat \<Rightarrow> nat" where
  "slice_bound i n = (if i < 0 then nat (i + int n) else min (nat i) n)"

definition py_slice :: "'a list \<Rightarrow> int \<Rightarrow> int \<Rightarrow> 'a list" where
  "py_slice xs a b =
     take (slice_bound b (length xs) - slice_bound a (length xs))
          (drop (slice_bound a (length xs)) xs)"

subsection \<open>Two-dimensional arrays\<close>

record 'a ndarray =
  ncols :: nat
  rows :: "'a list list"

definition nrows :: "'a ndarray \<Rightarrow> nat" where
  "nrows A = length (rows A)"

text \<open>\<open>A.shape\<close> of a two-dimensional array: (rows, columns).\<close>

definition shape :: "'a ndarray \<Rightarrow> nat \<times> nat" where
  "shape A = (nrows A, ncols A)"


text \<open>\<open>A[ys:ye, xs:xe]\<close>: the row slice, and the same column slice of every row.\<close>

definition nd_slice :: "'a ndarray \<Rightarrow> int \<Rightarrow> int \<Rightarrow> int \<Rightarrow> int \<Rightarrow> 'a ndarray" where
  "nd_slice A ys ye xs xe =
     \<lparr>ncols = slice_bound xe (ncols A) - slice_bound xs (ncols A),
      rows = map (\<lambda>r. py_slice r xs xe) (py_slice (rows A) ys ye)\<rparr>"

subsection \<open>Numeric helpers\<close>

text \<open>\<open>int(n / 2)\<close>: true division, then truncation towards zero.\<close>

definition half_trunc :: "int \<Rightarrow> int" where
  "half_trunc n = (if 0 \<le> n then n div 2 else - ((- n) div 2))"

text \<open>
  \<open>np.around(x).astype(int)\<close>: the nearest integer, a tie going to the even
  neighbour.
\<close>

definition around :: "rat \<Rightarrow> int" where
  "around x =
     (if x - of_int \<lfloor>x\<rfloor> < 1 / 2 then \<lfloor>x\<rfloor>
      else if 1 / 2 < x - of_int \<lfloor>x\<rfloor> then \<lfloor>x\<rfloor> + 1
      else if even \<lfloor>x\<rfloor> then \<lfloor>x\<rfloor> else \<lfloor>x\<rfloor> + 1)"

text \<open>\<open>np.arange(0, n, 1)\<close>.\<close>

definition arange :: "int \<Rightarrow> rat list" where
  "arange n = map of_int [0 .. n - 1]"

subsection \<open>The peak window: \<open>__pull_matrix\<close>\<close>

text \<open>
  The loop \<open>for i in range(loc[1] - size, loc[1] + size + 1)\<close> appends
  \<open>frame[i][loc[0] - size : loc[0] + size + 1]\<close> to \<open>mat\<close>; \<open>pull_rows\<close> is that loop
  over the remaining indices, with the slice bounds \<open>lo\<close> and \<open>hi\<close>.
\<close>

fun pull_rows :: "'a list list \<Rightarrow> int \<Rightarrow> int \<Rightarrow> int list \<Rightarrow> 'a list list \<Rightarrow> error + 'a list list" where
  "pull_rows frame lo hi [] mat = Inr mat"
| "pull_rows frame lo hi (i # rest) mat =
     (case py_index frame i of
        Inl e \<Rightarrow> Inl e
      | Inr row \<Rightarrow> pull_rows frame lo hi rest (mat @ [py_slice row lo hi]))"

definition pull_matrix :: "int \<Rightarrow> 'a list list \<Rightarrow> int \<times> int \<Rightarrow> error + 'a list list" where
  "pull_matrix sz frame loc =
     (let sz = half_trunc (sz - 1)
      in pull_rows frame (fst loc - sz) (fst loc + sz + 1) [snd loc - sz .. snd loc + sz] [])"

subsection \<open>The library routines the module calls\<close>

text \<open>
  \<open>matchTemplate\<close> is \<open>cv2.matchTemplate(roi, templ, cv2.TM_CCOEFF_NORMED)\<close>;
  \<open>minMaxLoc\<close> is \<open>cv2.minMaxLoc\<close>, of whose four results the module keeps the last,
  \<open>max_loc = (x, y)\<close>; \<open>interp2d\<close> is \<open>np.array\<close> of the window followed by
  \<open>interpolate.interp2d(xy, xy, mat, kind='cubic')\<close>; \<open>fmin\<close> is
  \<open>optimize.fmin(fn, x0, disp=False)\<close>. Each may raise.
\<close>

type_synonym pos = "rat \<times> rat"

record 'p prims =
  matchTemplate :: "'p ndarray \<Rightarrow> 'p ndarray \<Rightarrow> error + rat ndarray"
  minMaxLoc :: "rat ndarray \<Rightarrow> error + (int \<times> int)"
  interp2d :: "rat list \<Rightarrow> rat list \<Rightarrow> rat list list \<Rightarrow> error + (rat \<Rightarrow> rat \<Rightarrow> rat)"
  fmin :: "(pos \<Rightarrow> rat) \<Rightarrow> pos \<Rightarrow> error + pos"

subsection \<open>One frame: \<open>__find_max_subpixel_roi\<close>\<close>

text \<open>
  Lines 28 to 37: the bounds \<open>(xs, xe, ys, ye)\<close> of the region of interest
  \<open>frame[ys:ye, xs:xe]\<close>.
\<close>

definition roi_bounds :: "'p ndarray \<Rightarrow> 'p ndarray \<Rightarrow> pos \<Rightarrow> int \<Rightarrow> int \<times> int \<times> int \<times> int" where
  "roi_bounds frame templ pos offset =
     (let (h, w) = shape templ;
          (fh, fw) = shape frame;
          xs = around (fst pos - of_nat w / 2 - of_int offset);
          xs = (if xs < 0 then 0 else xs);
          xe = around (fst pos + of_nat w / 2 + of_int offset);
          xe = (if int fw \<le> xe then int fw - 1 else xe);
          ys = around (snd pos - of_nat h / 2 - of_int offset);
          ys = (if ys < 0 then 0 else ys);
          ye = around (snd pos + of_nat h / 2 + of_int offset);
          ye = (if int fh \<le> ye then int fh - 1 else ye)
      in (xs, xe, ys, ye))"

text \<open>Lines 51 to 58: the returned position, from \<open>max_loc\<close> and \<open>max_loc2\<close>.\<close>

definition remap :: "'p ndarray \<Rightarrow> int \<times> int \<Rightarrow> pos \<Rightarrow> int \<Rightarrow> int \<Rightarrow> pos" where
  "remap templ max_loc max_loc2 xs ys =
     (let (x, y) = shape templ;
          nx = of_int (fst max_loc) - (2 - fst max_loc2) + of_nat y / 2;
          ny = of_int (snd max_loc) - (2 - snd max_loc2) + of_nat x / 2;
          nx = of_int xs + nx;
          ny = of_int ys + ny
      in (nx, ny))"

definition find_max_subpixel_roi ::
  "'p prims \<Rightarrow> 'p ndarray \<Rightarrow> 'p ndarray \<Rightarrow> pos \<Rightarrow> int \<Rightarrow> int \<Rightarrow> error + pos" where
  "find_max_subpixel_roi P frame templ pos offset matsize =
     (case roi_bounds frame templ pos offset of (xs, xe, ys, ye) \<Rightarrow>
       (case matchTemplate P (nd_slice frame ys ye xs xe) templ of
          Inl e \<Rightarrow> Inl e
        | Inr res \<Rightarrow>
         (case minMaxLoc P res of
            Inl e \<Rightarrow> Inl e
          | Inr max_loc \<Rightarrow>
           (case pull_matrix matsize (rows res) max_loc of
              Inl e \<Rightarrow> Inl e
            | Inr mat \<Rightarrow>
             (case interp2d P (arange matsize) (arange matsize) mat of
                Inl e \<Rightarrow> Inl e
              | Inr f \<Rightarrow>
               (case fmin P (\<lambda>d. - f (fst d) (snd d))
                           ((of_int matsize - 1) / 2, (of_int matsize - 1) / 2) of
                  Inl e \<Rightarrow> Inl e
                | Inr max_loc2 \<Rightarrow> Inr (remap templ max_loc max_loc2 xs ys)))))))"

subsection \<open>The trackers\<close>

text \<open>
  \<open>track_loop\<close> is the \<open>for frame in frame_array\<close> loop of \<open>template_tracking\<close>, with
  the loop state \<open>currp\<close> and \<open>points\<close>; an exception of the frame step leaves the
  loop and the function.
\<close>

fun track_loop ::
  "'p prims \<Rightarrow> 'p ndarray \<Rightarrow> int \<Rightarrow> int \<Rightarrow> 'p ndarray list \<Rightarrow> pos \<Rightarrow> pos list \<Rightarrow> error + pos list" where
  "track_loop P template off ms [] currp points = Inr points"
| "track_loop P template off ms (frame # rest) currp points =
     (case find_max_subpixel_roi P frame template currp off ms of
        Inl e \<Rightarrow> Inl e
      | Inr p \<Rightarrow> track_loop P template off ms rest p (points @ [p]))"

definition template_tracking ::
  "'p prims \<Rightarrow> 'p ndarray list \<Rightarrow> 'p ndarray \<Rightarrow> pos \<Rightarrow> int \<Rightarrow> int \<Rightarrow> error + pos list" where
  "template_tracking P frame_array template initial_position roi_offset_size interpol_mat_size =
     track_loop P template roi_offset_size interpol_mat_size frame_array initial_position []"

fun dual_loop ::
  "'p prims \<Rightarrow> 'p ndarray \<Rightarrow> 'p ndarray \<Rightarrow> int \<Rightarrow> int \<Rightarrow> 'p ndarray list \<Rightarrow> pos \<Rightarrow> pos
     \<Rightarrow> (pos \<times> pos) list \<Rightarrow> error + (pos \<times> pos) list" where
  "dual_loop P lt rt off ms [] pl pr points = Inr points"
| "dual_loop P lt rt off ms (frame # rest) pl pr points =
     (case find_max_subpixel_roi P frame lt pl off ms of
        Inl e \<Rightarrow> Inl e
      | Inr pl' \<Rightarrow>
         (case find_max_subpixel_roi P frame rt pr off ms of
            Inl e \<Rightarrow> Inl e
          | Inr pr' \<Rightarrow> dual_loop P lt rt off ms rest pl' pr' (points @ [(pl', pr')])))"

definition template_tracking_dual ::
  "'p prims \<Rightarrow> 'p ndarray list \<Rightarrow> 'p ndarray \<Rightarrow> 'p ndarray \<Rightarrow> pos \<times> pos \<Rightarrow> int \<Rightarrow> int
     \<Rightarrow> error + (pos \<times> pos) list" where
  "template_tracking_dual P frame_array left_template right_template initial_position
       roi_offset_size interpol_mat_size =
     dual_loop P left_template right_template roi_offset_size interpol_mat_size frame_array
       (fst initial_position) (snd initial_position) []"

subsection \<open>The trajectory as a scan\<close>

text \<open>
  The specification's description of a tracker, to be compared with the loops above:
  the state is the current position; for each frame, in order, the step computes the
  next position from the frame and the current one, and that position is appended to
  the trajectory. A step that fails ends the run with its error.
\<close>

fun trajectory_scan :: "('f \<Rightarrow> 's \<Rightarrow> error + 's) \<Rightarrow> 'f list \<Rightarrow> 's \<Rightarrow> error + 's list" where
  "trajectory_scan step [] cur = Inr []"
| "trajectory_scan step (frame # rest) cur =
     (case step frame cur of
        Inl e \<Rightarrow> Inl e
      | Inr p \<Rightarrow>
         (case trajectory_scan step rest p of
            Inl e \<Rightarrow> Inl e
          | Inr tr \<Rightarrow> Inr (p # tr)))"

text \<open>
  The step of one tracker, with the frame and the current position as its last
  arguments, and the step of two trackers run side by side on the same frame: the
  left one first, then the right one, the first error ending the step.
\<close>

definition frame_step :: "'p prims \<Rightarrow> 'p ndarray \<Rightarrow> int \<Rightarrow> int \<Rightarrow> 'p ndarray \<Rightarrow> pos \<Rightarrow> error + pos" where
  "frame_step P template off ms frame cur = find_max_subpixel_roi P frame template cur off ms"

definition pair_step ::
  "('f \<Rightarrow> 'a \<Rightarrow> error + 'a) \<Rightarrow> ('f \<Rightarrow> 'b \<Rightarrow> error + 'b) \<Rightarrow> 'f \<Rightarrow> 'a \<times> 'b \<Rightarrow> error + 'a \<times> 'b" where
  "pair_step s1 s2 frame cur =
     (case s1 frame (fst cur) of
        Inl e \<Rightarrow> Inl e
      | Inr a \<Rightarrow> (case s2 frame (snd cur) of Inl e \<Rightarrow> Inl e | Inr b \<Rightarrow> Inr (a, b)))"

text \<open>The row that a valid index \<open>i\<close> of \<open>frame\<close> selects.\<close>

definition row_at :: "'a list list \<Rightarrow> int \<Rightarrow> 'a list" where
  "row_at frame i = frame ! nat (if i < 0 then i + int (length frame) else i)"

subsection \<open>The correlation routines, from their contract\<close>

text \<open>
  Modelled from the spec: \<open>cv2.matchTemplate\<close> is a library routine that the module
  calls and does not contain. The specification's contract for it: it fails if the
  region is smaller than the template in either dimension, and otherwise returns a
  surface of size \<open>(roi_h - templ_h + 1) \<times> (roi_w - templ_w + 1)\<close>, one score for each
  placement of the template in the region (a sliding-window correlation). The score of
  a placement is the parameter \<open>score\<close>.
\<close>

definition window :: "'p ndarray \<Rightarrow> nat \<Rightarrow> nat \<Rightarrow> nat \<Rightarrow> nat \<Rightarrow> 'p list list" where
  "window A r c h w = map (\<lambda>row. take w (drop c row)) (take h (drop r (rows A)))"

definition cv_matchTemplate ::
  "('p list list \<Rightarrow> 'p ndarray \<Rightarrow> rat) \<Rightarrow> 'p ndarray \<Rightarrow> 'p ndarray \<Rightarrow> error + rat ndarray" where
  "cv_matchTemplate score roi templ =
     (if nrows roi < nrows templ \<or> ncols roi < ncols templ then Inl CvError
      else Inr \<lparr>ncols = ncols roi - ncols templ + 1,
                rows = map (\<lambda>r. map (\<lambda>c. score (window roi r c (nrows templ) (ncols templ)) templ)
                                     [0 ..< ncols roi - ncols templ + 1])
                           [0 ..< nrows roi - nrows templ + 1]\<rparr>)"

text \<open>
  Modelled from the spec: \<open>cv2.minMaxLoc\<close> is a library routine that the module calls
  and does not contain. The specification's contract for it: it locates the discrete
  global maximum \<open>(mx, my)\<close> of the surface. The scan below goes through the rows in
  order and keeps the first of equal maxima.
\<close>

definition cells :: "rat ndarray \<Rightarrow> (rat \<times> int \<times> int) list" where
  "cells res =
     concat (map (\<lambda>r. map (\<lambda>c. (rows res ! r ! c, (int c, int r))) [0 ..< ncols res])
                 [0 ..< nrows res])"

definition better :: "rat \<times> int \<times> int \<Rightarrow> rat \<times> int \<times> int \<Rightarrow> rat \<times> int \<times> int" where
  "better cell best = (if fst best < fst cell then cell else best)"

definition cv_minMaxLoc :: "rat ndarray \<Rightarrow> error + (int \<times> int)" where
  "cv_minMaxLoc res =
     (case cells res of
        [] \<Rightarrow> Inl CvError
      | c0 # cs \<Rightarrow> Inr (snd (fold better cs c0)))"

subsection \<open>An instance of the library routines\<close>

text \<open>
  To run the model on concrete frames, the library routines are instantiated: the
  correlation above with the negated sum of squared differences as its score (largest,
  namely 0, where the region equals the template), an interpolant that reads the
  nearest sample of a full \<open>n \<times> n\<close> window and rejects any other window, and a
  minimiser stopped before its first iteration, which returns its starting point.
\<close>

definition sample_score :: "int list list \<Rightarrow> int ndarray \<Rightarrow> rat" where
  "sample_score win templ =
     - of_int (sum_list (map (\<lambda>(a, b). sum_list (map (\<lambda>(p, q). (p - q) * (p - q)) (zip a b)))
                             (zip win (rows templ))))"

definition nearest :: "rat list list \<Rightarrow> rat \<Rightarrow> rat \<Rightarrow> rat" where
  "nearest mat x y = mat ! nat (around y) ! nat (around x)"

definition sample_interp2d :: "rat list \<Rightarrow> rat list \<Rightarrow> rat list list \<Rightarrow> error + (rat \<Rightarrow> rat \<Rightarrow> rat)" where
  "sample_interp2d xs ys mat =
     (if mat \<noteq> [] \<and> length mat = length ys \<and> list_all (\<lambda>row. length row = length xs) mat
      then Inr (nearest mat) else Inl ScipyError)"

definition sample_fmin :: "(pos \<Rightarrow> rat) \<Rightarrow> pos \<Rightarrow> error + pos" where
  "sample_fmin fn x0 = Inr x0"

definition sample_prims :: "int prims" where
  "sample_prims =
     \<lparr>matchTemplate = cv_matchTemplate sample_score,
      minMaxLoc = cv_minMaxLoc,
      interp2d = sample_interp2d,
      fmin = sample_fmin\<rparr>"

text \<open>
  A 7 by 7 frame, dark but for a 2 by 2 block at rows and columns 3 and 4, and the
  block as the template; the centre of the block is \<open>(4, 4)\<close>.
\<close>

definition frame7 :: "int ndarray" where
  "frame7 =
     \<lparr>ncols = 7,
      rows = [[0, 0, 0, 0, 0, 0, 0],
              [0, 0, 0, 0, 0, 0, 0],
              [0, 0, 0, 0, 0, 0, 0],
              [0, 0, 0, 9, 8, 0, 0],
              [0, 0, 0, 7, 9, 0, 0],
              [0, 0, 0, 0, 0, 0, 0],
              [0, 0, 0, 0, 0, 0, 0]]\<rparr>"

definition block2 :: "int ndarray" where
  "block2 = \<lparr>ncols = 2, rows = [[9, 8], [7, 9]]\<rparr>"

text \<open>A 5 by 5 surface with distinct entries, \<open>10 * row + column\<close>.\<close>

definition surface5 :: "rat list list" where
  "surface5 =
     [[ 0,  1,  2,  3,  4],
      [10, 11, 12, 13, 14],
      [20, 21, 22, 23, 24],
      [30, 31, 32, 33, 34],
      [40, 41, 42, 43, 44]]"

section \<open>The peak window\<close>

subsection \<open>What the extraction loop computes\<close>

lemma pull_rows_eq:
  "pull_rows frame lo hi idx mat =
     (if list_all (\<lambda>i. - int (length frame) \<le> i \<and> i < int (length frame)) idx
      then Inr (mat @ map (\<lambda>i. py_slice (row_at frame i) lo hi) idx)
      else Inl IndexError)"
  by (induction idx arbitrary: mat) (auto simp: py_index_def row_at_def)

lemma half_trunc_pos: "0 < N \<Longrightarrow> half_trunc (N - 1) = (N - 1) div 2"
  by (simp add: half_trunc_def)

lemma pull_matrix_eq:
  "pull_matrix N frame (mx, my) =
     (if list_all (\<lambda>i. - int (length frame) \<le> i \<and> i < int (length frame))
           [my - half_trunc (N - 1) .. my + half_trunc (N - 1)]
      then Inr (map (\<lambda>i. py_slice (row_at frame i) (mx - half_trunc (N - 1)) (mx + half_trunc (N - 1) + 1))
                 [my - half_trunc (N - 1) .. my + half_trunc (N - 1)])
      else Inl IndexError)"
  by (simp add: pull_matrix_def pull_rows_eq Let_def)

lemma py_slice_inside:
  "0 \<le> a \<Longrightarrow> a \<le> b \<Longrightarrow> b \<le> int (length xs) \<Longrightarrow> py_slice xs a b = take (nat (b - a)) (drop (nat a) xs)"
  by (auto simp: py_slice_def slice_bound_def min_def nat_diff_distrib)

lemma pull_matrix_window:
  assumes N: "0 < N" and k: "k = (N - 1) div 2" and odd: "odd N"
    and rows_ok: "- int (length frame) \<le> my - k" "my + k < int (length frame)"
    and cols_ok: "k \<le> mx" "mx + k < int W"
    and wd: "\<forall>i. my - k \<le> i \<and> i \<le> my + k \<longrightarrow> length (row_at frame i) = W"
  shows "\<exists>mat. pull_matrix N frame (mx, my) = Inr mat \<and> length mat = nat N \<and>
           (\<forall>r<nat N. length (mat ! r) = nat N \<and>
              (\<forall>c<nat N. mat ! r ! c = row_at frame (my - k + int r) ! nat (mx - k + int c)))"
proof -
  have k0: "0 \<le> k" and N2: "N = 2 * k + 1"
    using N k odd by presburger+
  have ht: "half_trunc (N - 1) = k"
    using N k by (simp add: half_trunc_pos)
  let ?idx = "[my - k .. my + k]"
  let ?mat = "map (\<lambda>i. py_slice (row_at frame i) (mx - k) (mx + k + 1)) ?idx"
  have all: "list_all (\<lambda>i. - int (length frame) \<le> i \<and> i < int (length frame)) ?idx"
    using rows_ok by (auto simp: list_all_iff)
  have res: "pull_matrix N frame (mx, my) = Inr ?mat"
    unfolding pull_matrix_eq ht using all by simp
  have len: "length ?mat = nat N"
    using k0 N2 by simp
  have entry: "length (?mat ! r) = nat N \<and>
      (\<forall>c<nat N. ?mat ! r ! c = row_at frame (my - k + int r) ! nat (mx - k + int c))"
    if r: "r < nat N" for r
  proof -
    have ri: "r < length ?idx" using r k0 N2 by simp
    have idx: "?idx ! r = my - k + int r"
      using r N2 by (intro nth_upto) linarith
    have inr: "my - k \<le> my - k + int r \<and> my - k + int r \<le> my + k"
      using r N2 by linarith
    have w: "length (row_at frame (my - k + int r)) = W"
      using wd inr by blast
    have sl: "py_slice (row_at frame (my - k + int r)) (mx - k) (mx + k + 1)
              = take (nat N) (drop (nat (mx - k)) (row_at frame (my - k + int r)))"
      using cols_ok k0 N2 w by (subst py_slice_inside) (auto intro: arg_cong)
    have row: "?mat ! r = take (nat N) (drop (nat (mx - k)) (row_at frame (my - k + int r)))"
      using ri idx sl by (simp del: upto.simps)
    have l: "length (?mat ! r) = nat N"
      unfolding row using w cols_ok N2 k0 by (simp add: min_def) linarith
    have e: "?mat ! r ! c = row_at frame (my - k + int r) ! nat (mx - k + int c)" if "c < nat N" for c
      unfolding row using that w cols_ok N2 k0 by (simp add: nat_add_distrib)
    show ?thesis using l e by blast
  qed
  show ?thesis using res len entry by blast
qed

subsection \<open>A window that fits\<close>

text \<open>
  Claim C6. For a surface whose rows all have width \<open>W\<close>, an odd window size \<open>N\<close>
  with \<open>k = (N - 1) / 2\<close>, and a maximum \<open>(mx, my)\<close> at least \<open>k\<close> from every edge
  of the surface, \<open>__pull_matrix\<close> returns the \<open>N \<times> N\<close> square centred on the
  maximum: the entry at row \<open>r\<close>, column \<open>c\<close> of the window is the surface value at
  row \<open>my - k + r\<close>, column \<open>mx - k + c\<close>.
\<close>

theorem pull_matrix_centered:
  assumes "0 < N" and "odd N" and "k = (N - 1) div 2"
    and "k \<le> my" and "my + k < int (length frame)"
    and "k \<le> mx" and "mx + k < int W"
    and "\<forall>row\<in>set frame. length row = W"
  shows "\<exists>mat. pull_matrix N frame (mx, my) = Inr mat \<and> length mat = nat N \<and>
           (\<forall>r<nat N. length (mat ! r) = nat N \<and>
              (\<forall>c<nat N. mat ! r ! c = frame ! nat (my - k + int r) ! nat (mx - k + int c)))"
proof -
  have k0: "0 \<le> k" using assms(1,3) by simp
  have wd: "\<forall>i. my - k \<le> i \<and> i \<le> my + k \<longrightarrow> length (row_at frame i) = W"
    using assms(4,5,8) by (auto simp: row_at_def)
  have eq: "row_at frame (my - k + int r) = frame ! nat (my - k + int r)" for r
    using assms(4) by (simp add: row_at_def)
  from pull_matrix_window[OF assms(1,3,2) _ assms(5,6,7) wd] assms(4) k0
  show ?thesis unfolding eq by simp
qed

theorem pull_matrix_centered_witness:
  "(0::int) < 3 \<and> odd (3::int) \<and> (1::int) = (3 - 1) div 2
   \<and> (1::int) \<le> 2 \<and> 2 + 1 < int (length surface5)
   \<and> list_all (\<lambda>row. length row = 5) surface5
   \<and> (\<exists>mat. pull_matrix 3 surface5 (2, 2) = Inr mat \<and> length mat = 3 \<and>
          (\<forall>r<3. length (mat ! r) = 3 \<and>
             (\<forall>c<3. mat ! r ! c = surface5 ! nat (2 - 1 + int r) ! nat (2 - 1 + int c))))"
proof -
  have h1: "(0::int) < 3" and h2: "odd (3::int)" and h3: "(1::int) = (3 - 1) div 2"
    and h4: "(1::int) \<le> 2" and h5: "(2::int) + 1 < int (length surface5)"
    and h6: "(2::int) + 1 < int 5"
    by (simp_all add: surface5_def)
  have h7: "\<forall>row\<in>set surface5. length row = 5"
    by (simp add: surface5_def)
  from pull_matrix_centered [OF h1 h2 h3 h4 h5 h4 h6 h7] h5 h7
  show ?thesis by (simp add: list_all_iff)
qed

subsection \<open>A maximum near the top edge\<close>

text \<open>
  Claim C10. For a surface of height \<open>H\<close> whose rows all have width \<open>W\<close>, an odd window
  size \<open>N\<close> with \<open>k = (N - 1) / 2\<close>, and a maximum whose row index \<open>my\<close> satisfies
  \<open>0 \<le> my < k\<close> and \<open>my + k < H\<close> and whose column index is at least \<open>k\<close> from both
  vertical edges, \<open>__pull_matrix\<close> raises nothing: it returns an \<open>N \<times> N\<close> window in
  which a row requested at a negative index \<open>i\<close> is row \<open>H + i\<close> of the surface, so
  that the window holds rows from the bottom of the surface above rows from its top.
\<close>

theorem pull_matrix_wraps_top:
  assumes "0 < N" and "odd N" and "k = (N - 1) div 2"
    and "0 \<le> my" and "my < k" and "my + k < int (length frame)"
    and "k \<le> mx" and "mx + k < int W"
    and "\<forall>row\<in>set frame. length row = W"
  shows "\<exists>mat. pull_matrix N frame (mx, my) = Inr mat \<and> length mat = nat N \<and>
           (\<forall>r<nat N. length (mat ! r) = nat N \<and>
              (\<forall>c<nat N. mat ! r ! c =
                 frame ! nat (if my - k + int r < 0 then int (length frame) + (my - k + int r)
                              else my - k + int r)
                       ! nat (mx - k + int c)))"
proof -
  have low: "- int (length frame) \<le> my - k" using assms(4,5,6) by linarith
  have wd: "\<forall>i. my - k \<le> i \<and> i \<le> my + k \<longrightarrow> length (row_at frame i) = W"
    using assms(6,9) low by (auto simp: row_at_def)
  have eq: "row_at frame i = frame ! nat (if i < 0 then int (length frame) + i else i)" for i
    by (simp add: row_at_def add.commute)
  from pull_matrix_window[OF assms(1,3,2) low assms(6,7,8) wd]
  show ?thesis unfolding eq by simp
qed

theorem pull_matrix_wraps_top_witness:
  "(0::int) < 3 \<and> odd (3::int) \<and> (1::int) = (3 - 1) div 2 \<and> (0::int) < 1
   \<and> 0 + 1 < int (length surface5) \<and> (1::int) \<le> 2
   \<and> list_all (\<lambda>row. length row = 5) surface5
   \<and> (\<exists>mat. pull_matrix 3 surface5 (2, 0) = Inr mat \<and> length mat = 3 \<and>
          (\<forall>r<3. length (mat ! r) = 3 \<and>
             (\<forall>c<3. mat ! r ! c =
                surface5 ! nat (if 0 - 1 + int r < 0 then int (length surface5) + (0 - 1 + int r)
                                else 0 - 1 + int r)
                         ! nat (2 - 1 + int c))))"
proof -
  have h1: "(0::int) < 3" and h2: "odd (3::int)" and h3: "(1::int) = (3 - 1) div 2"
    and h4: "(0::int) \<le> 0" and h5: "(0::int) < 1"
    and h6: "(0::int) + 1 < int (length surface5)"
    and h7: "(1::int) \<le> 2" and h8: "(2::int) + 1 < int 5"
    by (simp_all add: surface5_def)
  have h9: "\<forall>row\<in>set surface5. length row = 5"
    by (simp add: surface5_def)
  from pull_matrix_wraps_top [OF h1 h2 h3 h4 h5 h6 h7 h8 h9] h6 h9
  show ?thesis by (simp add: list_all_iff)
qed

subsection \<open>When the extraction raises\<close>

text \<open>
  Claim C7 says that the extraction raises whenever the maximum is closer than
  \<open>(N - 1) / 2\<close> to an edge of the surface. It does not: at the left edge the column
  slice is empty and three empty rows are returned, and at the top edge the negative
  row index wraps to the bottom of the surface.
\<close>

theorem pull_matrix_near_edge_returns:
  "pull_matrix 3 surface5 (0, 2) = Inr [[], [], []]
   \<and> pull_matrix 3 surface5 (1, 0) = Inr [[40, 41, 42], [0, 1, 2], [10, 11, 12]]"
  by code_simp

text \<open>
  Claim C7, amended. For a surface of height \<open>H\<close>, a window size \<open>N \<ge> 1\<close> with
  \<open>k = (N - 1) div 2\<close> and a maximum at \<open>(mx, my)\<close>, the extraction raises IndexError
  exactly when a requested row index leaves \<open>-H \<dots> H - 1\<close>, that is when
  \<open>my + k \<ge> H\<close> (the maximum is closer than \<open>k\<close> to the bottom edge) or \<open>my - k < -H\<close>;
  in every other case it returns a window.
\<close>

theorem pull_matrix_raises_iff:
  assumes "0 < N"
  shows "((pull_matrix N frame (mx, my) = Inl IndexError) =
          (my - (N - 1) div 2 < - int (length frame) \<or> int (length frame) \<le> my + (N - 1) div 2))
       \<and> ((\<exists>mat. pull_matrix N frame (mx, my) = Inr mat) =
          (\<not> (my - (N - 1) div 2 < - int (length frame)
              \<or> int (length frame) \<le> my + (N - 1) div 2)))"
proof -
  have k: "0 \<le> (N - 1) div 2" using assms by simp
  show ?thesis
    unfolding pull_matrix_eq half_trunc_pos[OF assms] list_all_iff
    using k by (auto simp: not_le not_less)
qed

theorem pull_matrix_raises_iff_witness:
  "(0::int) < 3 \<and> pull_matrix 3 surface5 (2, 4) = Inl IndexError"
proof -
  have h: "(0::int) < 3" by simp
  from pull_matrix_raises_iff [OF h, of surface5 2 4] h
  show ?thesis by (simp add: surface5_def)
qed

section \<open>The trackers\<close>

subsection \<open>The loops are scans\<close>

lemma track_loop_scan:
  "track_loop P t off ms fs p acc =
     (case trajectory_scan (frame_step P t off ms) fs p of
        Inl e \<Rightarrow> Inl e
      | Inr tr \<Rightarrow> Inr (acc @ tr))"
  by (induction fs arbitrary: p acc) (auto simp: frame_step_def split: sum.splits)

lemma template_tracking_scan:
  "template_tracking P fs t p0 off ms = trajectory_scan (frame_step P t off ms) fs p0"
  by (simp add: template_tracking_def track_loop_scan split: sum.splits)

lemma dual_loop_scan:
  "dual_loop P lt rt off ms fs pl pr acc =
     (case trajectory_scan (pair_step (frame_step P lt off ms) (frame_step P rt off ms)) fs (pl, pr) of
        Inl e \<Rightarrow> Inl e
      | Inr tr \<Rightarrow> Inr (acc @ tr))"
  by (induction fs arbitrary: pl pr acc)
     (auto simp: frame_step_def pair_step_def split: sum.splits)

lemma template_tracking_dual_scan:
  "template_tracking_dual P fs lt rt ip off ms =
     trajectory_scan (pair_step (frame_step P lt off ms) (frame_step P rt off ms)) fs ip"
  by (simp add: template_tracking_dual_def dual_loop_scan split: sum.splits)

lemma scan_Cons_Inr:
  "trajectory_scan step (f # fs) s = Inr tr \<longleftrightarrow>
     (\<exists>p rest. step f s = Inr p \<and> trajectory_scan step fs p = Inr rest \<and> tr = p # rest)"
  by (auto split: sum.splits)

lemma scan_Inr_iff:
  "trajectory_scan step fs s = Inr tr \<longleftrightarrow>
     length tr = length fs \<and>
     (\<forall>i<length fs. step (fs ! i) (if i = 0 then s else tr ! (i - 1)) = Inr (tr ! i))"
proof (induction fs arbitrary: s tr)
  case Nil
  then show ?case by auto
next
  case (Cons f fs)
  show ?case
  proof (cases tr)
    case Nil
    then show ?thesis by (auto simp: scan_Cons_Inr simp del: trajectory_scan.simps)
  next
    case (Cons p rest)
    have "trajectory_scan step (f # fs) s = Inr (p # rest) \<longleftrightarrow>
            step f s = Inr p \<and> trajectory_scan step fs p = Inr rest"
      by (auto simp: scan_Cons_Inr simp del: trajectory_scan.simps)
    also have "\<dots> \<longleftrightarrow> step f s = Inr p \<and> length rest = length fs \<and>
        (\<forall>i<length fs. step (fs ! i) (if i = 0 then p else rest ! (i - 1)) = Inr (rest ! i))"
      by (simp add: Cons.IH)
    also have "\<dots> \<longleftrightarrow> length (p # rest) = length (f # fs) \<and>
        (\<forall>i<length (f # fs). step ((f # fs) ! i) (if i = 0 then s else (p # rest) ! (i - 1))
            = Inr ((p # rest) ! i))"
      by (auto simp: All_less_Suc2 nth_Cons')
    finally show ?thesis using Cons by simp
  qed
qed

lemma pair_step_Inr:
  "pair_step s1 s2 f (a, b) = Inr (x, y) \<longleftrightarrow> s1 f a = Inr x \<and> s2 f b = Inr y"
  by (auto simp: pair_step_def split: sum.splits)

lemma scan_pair_iff:
  "trajectory_scan (pair_step s1 s2) fs (a, b) = Inr out \<longleftrightarrow>
     trajectory_scan s1 fs a = Inr (map fst out) \<and> trajectory_scan s2 fs b = Inr (map snd out)"
proof (induction fs arbitrary: a b out)
  case Nil
  then show ?case by auto
next
  case (Cons f fs)
  show ?case
  proof (cases out)
    case Nil
    then show ?thesis by (simp add: scan_Cons_Inr del: trajectory_scan.simps)
  next
    case (Cons xy rest)
    obtain x y where xy: "xy = (x, y)" by (cases xy)
    have "trajectory_scan (pair_step s1 s2) (f # fs) (a, b) = Inr ((x, y) # rest) \<longleftrightarrow>
            pair_step s1 s2 f (a, b) = Inr (x, y)
            \<and> trajectory_scan (pair_step s1 s2) fs (x, y) = Inr rest"
      by (auto simp: scan_Cons_Inr simp del: trajectory_scan.simps)
    also have "\<dots> \<longleftrightarrow> (s1 f a = Inr x \<and> trajectory_scan s1 fs x = Inr (map fst rest))
                    \<and> (s2 f b = Inr y \<and> trajectory_scan s2 fs y = Inr (map snd rest))"
      by (auto simp: pair_step_Inr Cons.IH)
    also have "\<dots> \<longleftrightarrow> trajectory_scan s1 (f # fs) a = Inr (x # map fst rest)
                    \<and> trajectory_scan s2 (f # fs) b = Inr (y # map snd rest)"
      by (simp add: scan_Cons_Inr del: trajectory_scan.simps)
    finally show ?thesis using Cons xy by simp
  qed
qed

subsection \<open>The causal chain of a trajectory\<close>

text \<open>
  Claim C3. The result of \<open>template_tracking\<close> is the scan of the per-frame step over
  the frames, started at the initial position. It is a trajectory \<open>traj\<close> exactly when
  \<open>traj\<close> has one element per frame and, for every frame index \<open>i\<close>, the step on frame
  \<open>i\<close> from the previous element of \<open>traj\<close> (from the initial position for \<open>i = 0\<close>)
  returns element \<open>i\<close> of \<open>traj\<close>.
\<close>

theorem template_tracking_is_scan:
  "template_tracking P frames t p0 off ms =
     trajectory_scan (\<lambda>frame cur. find_max_subpixel_roi P frame t cur off ms) frames p0
   \<and> (template_tracking P frames t p0 off ms = Inr traj \<longleftrightarrow>
        length traj = length frames \<and>
        (\<forall>i<length frames.
           find_max_subpixel_roi P (frames ! i) t (if i = 0 then p0 else traj ! (i - 1)) off ms
             = Inr (traj ! i)))"
proof -
  have step: "frame_step P t off ms = (\<lambda>frame cur. find_max_subpixel_roi P frame t cur off ms)"
    by (simp add: frame_step_def fun_eq_iff)
  show ?thesis
    unfolding template_tracking_scan scan_Inr_iff step by simp
qed

theorem template_tracking_is_scan_witness:
  "template_tracking sample_prims [frame7, frame7] block2 (4, 4) 2 3 = Inr [(3, 3), (3, 3)]
   \<and> find_max_subpixel_roi sample_prims frame7 block2 (4, 4) 2 3 = Inr (3, 3)
   \<and> find_max_subpixel_roi sample_prims frame7 block2 (3, 3) 2 3 = Inr (3, 3)"
proof -
  have run: "template_tracking sample_prims [frame7, frame7] block2 (4, 4) 2 3
               = Inr [(3, 3), (3, 3)]"
    by code_simp
  from template_tracking_is_scan [THEN conjunct2, THEN iffD1, OF run]
  have chain: "\<forall>i<length [frame7, frame7].
      find_max_subpixel_roi sample_prims ([frame7, frame7] ! i) block2
        (if i = 0 then (4, 4) else [(3, 3), (3, 3)] ! (i - 1)) 2 3 = Inr ([(3, 3), (3, 3)] ! i)"
    by blast
  from chain [rule_format, of 0] chain [rule_format, of 1] run
  show ?thesis by simp
qed

subsection \<open>One position per frame\<close>

text \<open>
  Claim C4. When \<open>template_tracking\<close> returns a trajectory, the trajectory has exactly
  one position per input frame, and element \<open>i\<close> is the position found in frame \<open>i\<close>;
  when \<open>template_tracking_dual\<close> returns, its result has exactly one pair of positions
  per input frame, and element \<open>i\<close> is the pair found in frame \<open>i\<close>.
\<close>

theorem trajectory_one_per_frame:
  "(template_tracking P frames t p0 off ms = Inr traj \<longrightarrow>
      length traj = length frames \<and>
      (\<forall>i<length frames.
         find_max_subpixel_roi P (frames ! i) t (if i = 0 then p0 else traj ! (i - 1)) off ms
           = Inr (traj ! i)))
   \<and> (template_tracking_dual P frames lt rt ip off ms = Inr out \<longrightarrow>
      length out = length frames \<and>
      (\<forall>i<length frames.
         find_max_subpixel_roi P (frames ! i) lt
             (if i = 0 then fst ip else fst (out ! (i - 1))) off ms = Inr (fst (out ! i))
         \<and> find_max_subpixel_roi P (frames ! i) rt
             (if i = 0 then snd ip else snd (out ! (i - 1))) off ms = Inr (snd (out ! i))))"
proof -
  have single: "template_tracking P frames t p0 off ms = Inr traj \<longrightarrow>
      length traj = length frames \<and>
      (\<forall>i<length frames.
         find_max_subpixel_roi P (frames ! i) t (if i = 0 then p0 else traj ! (i - 1)) off ms
           = Inr (traj ! i))"
    unfolding template_tracking_scan scan_Inr_iff by (simp add: frame_step_def)
  have dual: "template_tracking_dual P frames lt rt ip off ms = Inr out \<longrightarrow>
      length out = length frames \<and>
      (\<forall>i<length frames.
         find_max_subpixel_roi P (frames ! i) lt
             (if i = 0 then fst ip else fst (out ! (i - 1))) off ms = Inr (fst (out ! i))
         \<and> find_max_subpixel_roi P (frames ! i) rt
             (if i = 0 then snd ip else snd (out ! (i - 1))) off ms = Inr (snd (out ! i)))"
  proof
    assume run: "template_tracking_dual P frames lt rt ip off ms = Inr out"
    then have "trajectory_scan (pair_step (frame_step P lt off ms) (frame_step P rt off ms))
                 frames ip = Inr out"
      by (simp add: template_tracking_dual_scan)
    with scan_pair_iff [of "frame_step P lt off ms" "frame_step P rt off ms" frames
                           "fst ip" "snd ip" out]
    have l: "trajectory_scan (frame_step P lt off ms) frames (fst ip) = Inr (map fst out)"
      and r: "trajectory_scan (frame_step P rt off ms) frames (snd ip) = Inr (map snd out)"
      by simp_all
    have len: "length out = length frames"
      using l by (simp add: scan_Inr_iff)
    have "frame_step P lt off ms (frames ! i) (if i = 0 then fst ip else fst (out ! (i - 1)))
            = Inr (fst (out ! i))
          \<and> frame_step P rt off ms (frames ! i) (if i = 0 then snd ip else snd (out ! (i - 1)))
            = Inr (snd (out ! i))"
      if i: "i < length frames" for i
    proof -
      have "frame_step P lt off ms (frames ! i)
              (if i = 0 then fst ip else map fst out ! (i - 1)) = Inr (map fst out ! i)"
        and "frame_step P rt off ms (frames ! i)
              (if i = 0 then snd ip else map snd out ! (i - 1)) = Inr (map snd out ! i)"
        using l r i unfolding scan_Inr_iff by blast+
      then show ?thesis using i len by (simp split: if_splits)
    qed
    then show "length out = length frames \<and>
      (\<forall>i<length frames.
         find_max_subpixel_roi P (frames ! i) lt
             (if i = 0 then fst ip else fst (out ! (i - 1))) off ms = Inr (fst (out ! i))
         \<and> find_max_subpixel_roi P (frames ! i) rt
             (if i = 0 then snd ip else snd (out ! (i - 1))) off ms = Inr (snd (out ! i)))"
      using len unfolding frame_step_def by blast
  qed
  show ?thesis using single dual by blast
qed

theorem trajectory_one_per_frame_witness:
  "template_tracking sample_prims [frame7, frame7, frame7] block2 (4, 4) 2 3
     = Inr [(3, 3), (3, 3), (3, 3)]
   \<and> length [(3, 3), (3, 3), (3 :: rat, 3 :: rat)] = length [frame7, frame7, frame7]
   \<and> template_tracking_dual sample_prims [frame7, frame7] block2 block2 ((4, 4), (5, 5)) 2 3
     = Inr [((3, 3), (3, 3)), ((3, 3), (3, 3))]
   \<and> length [((3, 3), (3, 3)), ((3 :: rat, 3 :: rat), (3 :: rat, 3 :: rat))]
     = length [frame7, frame7]"
proof -
  have single: "template_tracking sample_prims [frame7, frame7, frame7] block2 (4, 4) 2 3
                  = Inr [(3, 3), (3, 3), (3, 3)]"
    by code_simp
  have dual: "template_tracking_dual sample_prims [frame7, frame7] block2 block2
                 ((4, 4), (5, 5)) 2 3 = Inr [((3, 3), (3, 3)), ((3, 3), (3, 3))]"
    by code_simp
  from trajectory_one_per_frame [THEN conjunct1, rule_format, OF single]
       trajectory_one_per_frame [THEN conjunct2, rule_format, OF dual] single dual
  show ?thesis by simp
qed

subsection \<open>The dual tracker is two single trackers\<close>

text \<open>
  Claim C5. \<open>template_tracking_dual\<close> returns \<open>out\<close> exactly when \<open>template_tracking\<close>
  with the left template and the left initial position returns the left components of
  \<open>out\<close> and \<open>template_tracking\<close> with the right template and the right initial
  position returns its right components. In particular, with the same template and the
  same initial position on both sides, the left and the right trajectories are equal.
\<close>

theorem dual_is_two_singles:
  "(template_tracking_dual P frames lt rt (pl, pr) off ms = Inr out \<longleftrightarrow>
      template_tracking P frames lt pl off ms = Inr (map fst out)
      \<and> template_tracking P frames rt pr off ms = Inr (map snd out))
   \<and> (template_tracking_dual P frames t t (p, p) off ms = Inr out' \<longrightarrow>
      map fst out' = map snd out')"
proof -
  have split: "template_tracking_dual P frames a b (x, y) off ms = Inr r \<longleftrightarrow>
      template_tracking P frames a x off ms = Inr (map fst r)
      \<and> template_tracking P frames b y off ms = Inr (map snd r)" for a b x y r
    unfolding template_tracking_dual_scan template_tracking_scan by (rule scan_pair_iff)
  have same: "map fst out' = map snd out'"
    if "template_tracking_dual P frames t t (p, p) off ms = Inr out'"
  proof -
    from that have "template_tracking P frames t p off ms = Inr (map fst out')"
      and "template_tracking P frames t p off ms = Inr (map snd out')"
      unfolding split by blast+
    then have "Inr (map fst out') = (Inr (map snd out') :: error + pos list)"
      by (simp del: map_eq_conv)
    then show ?thesis by (simp only: sum.inject)
  qed
  show ?thesis using split same by blast
qed

theorem dual_is_two_singles_witness:
  "template_tracking_dual sample_prims [frame7, frame7] block2 block2 ((4, 4), (4, 4)) 2 3
     = Inr [((3, 3), (3, 3)), ((3, 3), (3, 3))]
   \<and> template_tracking sample_prims [frame7, frame7] block2 (4, 4) 2 3
     = Inr (map fst [((3, 3), (3, 3)), ((3 :: rat, 3 :: rat), (3 :: rat, 3 :: rat))])
   \<and> map fst [((3, 3), (3, 3)), ((3 :: rat, 3 :: rat), (3 :: rat, 3 :: rat))]
     = map snd [((3, 3), (3, 3)), ((3 :: rat, 3 :: rat), (3 :: rat, 3 :: rat))]"
proof -
  have dual: "template_tracking_dual sample_prims [frame7, frame7] block2 block2
                 ((4, 4), (4, 4)) 2 3 = Inr [((3, 3), (3, 3)), ((3, 3), (3, 3))]"
    by code_simp
  from dual_is_two_singles [THEN conjunct1, THEN iffD1, OF dual]
       dual_is_two_singles [THEN conjunct2, rule_format, OF dual] dual
  show ?thesis by simp
qed

subsection \<open>No frames\<close>

text \<open>
  Claim C9 says that both trackers fail with a configuration error on an empty frame
  sequence or a zero-sized template, before the loop. They have no such check: with
  no frame and a template of no rows and no columns, both return the empty trajectory.
\<close>

theorem empty_run_returns:
  "template_tracking sample_prims [] \<lparr>ncols = 0, rows = []\<rparr> (0, 0) 50 11 = Inr []
   \<and> template_tracking_dual sample_prims [] \<lparr>ncols = 0, rows = []\<rparr> \<lparr>ncols = 0, rows = []\<rparr>
       ((0, 0), (0, 0)) 50 11 = Inr []"
  by (simp add: template_tracking_def template_tracking_dual_def)

text \<open>
  Claim C9, amended. On the empty frame sequence \<open>template_tracking\<close> and
  \<open>template_tracking_dual\<close> return the empty trajectory and raise nothing, whatever
  the template, the initial position and the parameters.
\<close>

theorem no_frames_empty_trajectory:
  "template_tracking P [] t p0 off ms = Inr []
   \<and> template_tracking_dual P [] lt rt ip off ms = Inr []"
  by (simp add: template_tracking_def template_tracking_dual_def)

section \<open>One frame\<close>

subsection \<open>The region of interest\<close>

lemma around_le: "x \<le> of_int n \<Longrightarrow> around x \<le> n"
proof -
  assume le: "x \<le> of_int n"
  then have fl: "\<lfloor>x\<rfloor> \<le> n" using floor_mono [of x "of_int n"] by simp
  show ?thesis
  proof (cases "\<lfloor>x\<rfloor> = n")
    case True
    with le have "x = of_int \<lfloor>x\<rfloor>" using of_int_floor_le[of x] by simp
    then have "x - of_int \<lfloor>x\<rfloor> = 0" by simp
    then show ?thesis using True by (simp add: around_def)
  next
    case False
    with fl have "\<lfloor>x\<rfloor> + 1 \<le> n" by simp
    then show ?thesis by (simp add: around_def)
  qed
qed

lemma around_ge: "of_int n \<le> x \<Longrightarrow> n \<le> around x"
proof -
  assume "of_int n \<le> x"
  then have "n \<le> \<lfloor>x\<rfloor>" by (simp add: le_floor_iff)
  then show ?thesis by (simp add: around_def)
qed

text \<open>
  Claim C2 says that the four indices are within the frame for every position, also
  beyond the border. The start indices are only clamped from below and the end
  indices only from above: for a position far to the right of a 7 pixel wide frame the
  start column is 97, and for a position far to the left the end column is -97.
\<close>

theorem roi_bounds_outside_frame:
  "roi_bounds frame7 block2 (100, 2) 2 = (97, 6, 0, 5) \<and> \<not> (97 < int (ncols frame7))
   \<and> roi_bounds frame7 block2 (- 100, 2) 2 = (0, - 97, 0, 5) \<and> \<not> (0 \<le> (- 97 :: int))"
  by code_simp

text \<open>
  Claim C2, amended. With \<open>round\<close> the nearest integer, ties to the even neighbour, the
  region of interest is \<open>[xs, xe) \<times> [ys, ye)\<close> with
  \<open>xs = max 0 (round (pos.x - w/2 - margin))\<close>,
  \<open>xe = min (fw - 1) (round (pos.x + w/2 + margin))\<close>, and \<open>ys\<close>, \<open>ye\<close> likewise from
  \<open>pos.y\<close>, \<open>h\<close> and \<open>fh\<close>. For every position \<open>xs\<close> and \<open>ys\<close> are not negative and
  \<open>xe < fw\<close>, \<open>ye < fh\<close>. If moreover the unclamped interval meets the frame
  (\<open>fw \<ge> 1\<close>, \<open>pos.x - w/2 - margin \<le> fw - 1\<close> and \<open>pos.x + w/2 + margin \<ge> 0\<close>,
  which holds for every position inside the frame when the margin is not negative),
  then also \<open>xs < fw\<close> and \<open>xe \<ge> 0\<close>; likewise for \<open>ys\<close> and \<open>ye\<close>. The bounds are a
  function of the frame's and the template's shape, the position and the margin.
\<close>

theorem roi_bounds_clamped:
  assumes "roi_bounds frame templ pos offset = (xs, xe, ys, ye)"
  shows "xs = max 0 (around (fst pos - of_nat (ncols templ) / 2 - of_int offset))
       \<and> xe = min (int (ncols frame) - 1) (around (fst pos + of_nat (ncols templ) / 2 + of_int offset))
       \<and> ys = max 0 (around (snd pos - of_nat (nrows templ) / 2 - of_int offset))
       \<and> ye = min (int (nrows frame) - 1) (around (snd pos + of_nat (nrows templ) / 2 + of_int offset))
       \<and> 0 \<le> xs \<and> xe < int (ncols frame) \<and> 0 \<le> ys \<and> ye < int (nrows frame)
       \<and> (1 \<le> ncols frame
            \<and> fst pos - of_nat (ncols templ) / 2 - of_int offset \<le> of_nat (ncols frame) - 1
            \<and> 0 \<le> fst pos + of_nat (ncols templ) / 2 + of_int offset
          \<longrightarrow> xs < int (ncols frame) \<and> 0 \<le> xe)
       \<and> (1 \<le> nrows frame
            \<and> snd pos - of_nat (nrows templ) / 2 - of_int offset \<le> of_nat (nrows frame) - 1
            \<and> 0 \<le> snd pos + of_nat (nrows templ) / 2 + of_int offset
          \<longrightarrow> ys < int (nrows frame) \<and> 0 \<le> ye)"
proof -
  let ?ax = "around (fst pos - of_nat (ncols templ) / 2 - of_int offset)"
  let ?bx = "around (fst pos + of_nat (ncols templ) / 2 + of_int offset)"
  let ?ay = "around (snd pos - of_nat (nrows templ) / 2 - of_int offset)"
  let ?by = "around (snd pos + of_nat (nrows templ) / 2 + of_int offset)"
  have xs: "xs = max 0 ?ax" and xe: "xe = min (int (ncols frame) - 1) ?bx"
    and ys: "ys = max 0 ?ay" and ye: "ye = min (int (nrows frame) - 1) ?by"
    using assms by (auto simp: roi_bounds_def shape_def Let_def max_def min_def)
  have x_in: "xs < int (ncols frame) \<and> 0 \<le> xe"
    if "1 \<le> ncols frame"
      and "fst pos - of_nat (ncols templ) / 2 - of_int offset \<le> of_nat (ncols frame) - 1"
      and "0 \<le> fst pos + of_nat (ncols templ) / 2 + of_int offset"
  proof -
    have "fst pos - of_nat (ncols templ) / 2 - of_int offset \<le> of_int (int (ncols frame) - 1)"
      using that(2) by simp
    then have "?ax \<le> int (ncols frame) - 1" by (rule around_le)
    moreover have "0 \<le> ?bx" using that(3) around_ge[of 0] by simp
    ultimately show ?thesis using that(1) xs xe by simp
  qed
  have y_in: "ys < int (nrows frame) \<and> 0 \<le> ye"
    if "1 \<le> nrows frame"
      and "snd pos - of_nat (nrows templ) / 2 - of_int offset \<le> of_nat (nrows frame) - 1"
      and "0 \<le> snd pos + of_nat (nrows templ) / 2 + of_int offset"
  proof -
    have "snd pos - of_nat (nrows templ) / 2 - of_int offset \<le> of_int (int (nrows frame) - 1)"
      using that(2) by simp
    then have "?ay \<le> int (nrows frame) - 1" by (rule around_le)
    moreover have "0 \<le> ?by" using that(3) around_ge[of 0] by simp
    ultimately show ?thesis using that(1) ys ye by simp
  qed
  have one: "0 \<le> xs \<and> xe < int (ncols frame) \<and> 0 \<le> ys \<and> ye < int (nrows frame)"
    unfolding xs xe ys ye by (simp add: min_less_iff_disj)
  show ?thesis using xs xe ys ye one x_in y_in by blast
qed

theorem roi_bounds_clamped_witness:
  "roi_bounds frame7 block2 (6, 0) 2 = (3, 6, 0, 3)
   \<and> 1 \<le> ncols frame7
   \<and> (6 :: rat) - of_nat (ncols block2) / 2 - of_int 2 \<le> of_nat (ncols frame7) - 1
   \<and> (0 :: rat) \<le> 6 + of_nat (ncols block2) / 2 + of_int 2
   \<and> 1 \<le> nrows frame7
   \<and> (0 :: rat) - of_nat (nrows block2) / 2 - of_int 2 \<le> of_nat (nrows frame7) - 1
   \<and> (0 :: rat) \<le> 0 + of_nat (nrows block2) / 2 + of_int 2
   \<and> (3 :: int) < int (ncols frame7) \<and> (0 :: int) \<le> 6 \<and> (6 :: int) < int (ncols frame7)
   \<and> (0 :: int) < int (nrows frame7) \<and> (0 :: int) \<le> 3 \<and> (3 :: int) < int (nrows frame7)"
proof -
  have b: "roi_bounds frame7 block2 (6, 0) 2 = (3, 6, 0, 3)"
    by code_simp
  have dims: "ncols frame7 = 7" "nrows frame7 = 7" "ncols block2 = 2" "nrows block2 = 2"
    by (simp_all add: frame7_def block2_def nrows_def)
  from roi_bounds_clamped [OF b] b show ?thesis
    by (simp add: dims)
qed

subsection \<open>The correlation step\<close>










subsection \<open>The returned position\<close>

text \<open>
  Claim C1. For every window size \<open>N\<close>: when the correlation yields a surface with its
  maximum at \<open>(mx, my)\<close>, in coordinates of the region of interest, and the minimiser,
  run on the interpolated window, returns the window coordinates \<open>(sx, sy)\<close>, then the
  frame step returns \<open>(xs + nx, ys + ny)\<close> with
  \<open>nx = mx - (2 - sx) + template_width / 2\<close> and
  \<open>ny = my - (2 - sy) + template_height / 2\<close>, where \<open>(xs, ys)\<close> is the origin of the
  region of interest.
\<close>

theorem subpixel_position:
  assumes "roi_bounds frame templ pos offset = (xs, xe, ys, ye)"
    and "matchTemplate P (nd_slice frame ys ye xs xe) templ = Inr res"
    and "minMaxLoc P res = Inr (mx, my)"
    and "pull_matrix N (rows res) (mx, my) = Inr mat"
    and "interp2d P (arange N) (arange N) mat = Inr f"
    and "fmin P (\<lambda>d. - f (fst d) (snd d)) ((of_int N - 1) / 2, (of_int N - 1) / 2) = Inr (sx, sy)"
  shows "find_max_subpixel_roi P frame templ pos offset N =
           Inr (of_int xs + (of_int mx - (2 - sx) + of_nat (ncols templ) / 2),
                of_int ys + (of_int my - (2 - sy) + of_nat (nrows templ) / 2))"
  using assms by (simp add: find_max_subpixel_roi_def remap_def shape_def)

theorem subpixel_position_witness:
  "roi_bounds frame7 block2 (4, 4) 2 = (1, 6, 1, 6)
   \<and> matchTemplate sample_prims (nd_slice frame7 1 6 1 6) block2 =
       Inr \<lparr>ncols = 4,
            rows = [[- 275, - 275, - 275, - 275], [- 275, - 194, - 150, - 227],
                    [- 275, - 135, 0, - 150], [- 275, - 212, - 135, - 194]]\<rparr>
   \<and> minMaxLoc sample_prims
        \<lparr>ncols = 4,
         rows = [[- 275, - 275, - 275, - 275], [- 275, - 194, - 150, - 227],
                 [- 275, - 135, 0, - 150], [- 275, - 212, - 135, - 194]]\<rparr> = Inr (2, 2)
   \<and> pull_matrix 3 [[- 275, - 275, - 275, - 275], [- 275, - 194, - 150, - 227],
                     [- 275, - 135, 0, - 150], [- 275, - 212, - 135, - 194 :: rat]] (2, 2) =
       Inr [[- 194, - 150, - 227], [- 135, 0, - 150], [- 212, - 135, - 194]]
   \<and> find_max_subpixel_roi sample_prims frame7 block2 (4, 4) 2 3 =
       Inr (1 + (2 - (2 - 1) + 2 / 2), 1 + (2 - (2 - 1) + 2 / 2))"
proof -
  let ?surf = "[[- 275, - 275, - 275, - 275], [- 275, - 194, - 150, - 227],
                [- 275, - 135, 0, - 150], [- 275, - 212, - 135, - 194 :: rat]]"
  let ?mat = "[[- 194, - 150, - 227], [- 135, 0, - 150], [- 212, - 135, - 194 :: rat]]"
  have a1: "roi_bounds frame7 block2 (4, 4) 2 = (1, 6, 1, 6)"
    by code_simp
  have a2: "matchTemplate sample_prims (nd_slice frame7 1 6 1 6) block2
              = Inr \<lparr>ncols = 4, rows = ?surf\<rparr>"
    by code_simp
  have a3: "minMaxLoc sample_prims \<lparr>ncols = 4, rows = ?surf\<rparr> = Inr (2, 2)"
    by code_simp
  have a4: "pull_matrix 3 (rows \<lparr>ncols = 4, rows = ?surf\<rparr>) (2, 2) = Inr ?mat"
    by code_simp
  have a5: "interp2d sample_prims (arange 3) (arange 3) ?mat = Inr (nearest ?mat)"
    by (simp add: sample_prims_def sample_interp2d_def arange_def)
  have a6: "fmin sample_prims (\<lambda>d. - nearest ?mat (fst d) (snd d))
              ((of_int 3 - 1) / 2, (of_int 3 - 1) / 2) = Inr (1, 1)"
    by (simp add: sample_prims_def sample_fmin_def)
  have dims: "ncols block2 = 2" "nrows block2 = 2"
    by (simp_all add: block2_def nrows_def)
  from subpixel_position [OF a1 a2 a3 a4 a5 a6] a1 a2 a3 a4 show ?thesis
    by (simp add: dims)
qed

end
